theory Spec2Isabelle
  imports Main
begin

section \<open>Request objects\<close>

text \<open>
  The request interfaces of \<^verbatim>\<open>PackagesAPI.ts\<close> (\<^verbatim>\<open>CreatePkgRequest\<close> ...
  \<^verbatim>\<open>ExportStackRequest\<close>) are plain JavaScript objects. Their properties hold strings
  (\<^verbatim>\<open>stack_id\<close>, \<^verbatim>\<open>orgID\<close>, \<^verbatim>\<open>name\<close>, \<^verbatim>\<open>stackID\<close>) or a data object
  (\<^verbatim>\<open>body\<close>, whose shape is declared in \<^verbatim>\<open>./types\<close> and is kept abstract here as
  the type parameter \<open>'b\<close>). An object is a map from property names to values; reading
  a property that is absent gives \<^verbatim>\<open>undefined\<close>, which is \<open>None\<close> here.
\<close>

datatype 'b jsval = JString string | JObject 'b

type_synonym 'b jsobject = "string \<rightharpoonup> 'b jsval"

text \<open>
  A template literal \<^verbatim>\<open>`...${v}...`\<close> converts \<open>v\<close> to a string: a string is taken
  as it is, \<^verbatim>\<open>undefined\<close> becomes the nine characters \<^verbatim>\<open>undefined\<close>, and a plain data
  object becomes \<^verbatim>\<open>[object Object]\<close>.
\<close>

fun template :: "'b jsval option \<Rightarrow> string" where
  "template None = ''undefined''"
| "template (Some (JString s)) = s"
| "template (Some (JObject b)) = ''[object Object]''"

section \<open>The transport\<close>

text \<open>
  \<^verbatim>\<open>APIBase\<close> is imported from \<^verbatim>\<open>../APIBase\<close>; the methods below use two of its
  members, which are parameters of this development:
  \<^item> \<^verbatim>\<open>request(method, path, request, requestOptions, mediaType?)\<close> performs the call.
    It acts on the world outside (type \<open>'w\<close>) and returns the pending result (type
    \<open>'p\<close>); an argument that is left out is \<open>None\<close>;
  \<^item> \<^verbatim>\<open>queryString(request, params)\<close> returns a string.
  \<^verbatim>\<open>RequestOptions\<close> is a type of \<^verbatim>\<open>../APIBase\<close> too, the type parameter \<open>'o\<close>.
\<close>

record ('b, 'o, 'w, 'p) APIBase =
  request :: "string \<Rightarrow> string \<Rightarrow> 'b jsobject \<Rightarrow> 'o option \<Rightarrow> string option \<Rightarrow> 'w \<Rightarrow> 'p \<times> 'w"
  queryString :: "'b jsobject \<Rightarrow> string list \<Rightarrow> string"

section \<open>PackagesAPI\<close>

record ('b, 'o, 'w, 'p) PackagesAPI =
  base :: "('b, 'o, 'w, 'p) APIBase"

text \<open>The constructor wraps the connection handle in a new \<^verbatim>\<open>APIBase\<close>.\<close>

definition constructor ::
  "('i \<Rightarrow> ('b, 'o, 'w, 'p) APIBase) \<Rightarrow> 'i \<Rightarrow> ('b, 'o, 'w, 'p) PackagesAPI" where
  "constructor newAPIBase influxDB = \<lparr>base = newAPIBase influxDB\<rparr>"

definition createPkg ::
  "('b, 'o, 'w, 'p) PackagesAPI \<Rightarrow> 'b jsobject \<Rightarrow> 'o option \<Rightarrow> 'w \<Rightarrow> 'p \<times> 'w" where
  "createPkg this req requestOptions =
     request (base this) ''POST'' ''/api/v2/packages''
       req requestOptions (Some ''application/json'')"

definition applyPkg ::
  "('b, 'o, 'w, 'p) PackagesAPI \<Rightarrow> 'b jsobject \<Rightarrow> 'o option \<Rightarrow> 'w \<Rightarrow> 'p \<times> 'w" where
  "applyPkg this req requestOptions =
     request (base this) ''POST'' ''/api/v2/packages/apply''
       req requestOptions (Some ''application/json'')"

definition listStacks ::
  "('b, 'o, 'w, 'p) PackagesAPI \<Rightarrow> 'b jsobject \<Rightarrow> 'o option \<Rightarrow> 'w \<Rightarrow> 'p \<times> 'w" where
  "listStacks this req requestOptions =
     request (base this) ''GET''
       (''/api/v2/packages/stacks''
          @ queryString (base this) req [''orgID'', ''name'', ''stackID''])
       req requestOptions None"

definition createStack ::
  "('b, 'o, 'w, 'p) PackagesAPI \<Rightarrow> 'b jsobject \<Rightarrow> 'o option \<Rightarrow> 'w \<Rightarrow> 'p \<times> 'w" where
  "createStack this req requestOptions =
     request (base this) ''POST'' ''/api/v2/packages/stacks''
       req requestOptions (Some ''application/json'')"

definition readStack ::
  "('b, 'o, 'w, 'p) PackagesAPI \<Rightarrow> 'b jsobject \<Rightarrow> 'o option \<Rightarrow> 'w \<Rightarrow> 'p \<times> 'w" where
  "readStack this req requestOptions =
     request (base this) ''GET''
       (''/api/v2/packages/stacks/'' @ template (req ''stack_id''))
       req requestOptions None"

definition updateStack ::
  "('b, 'o, 'w, 'p) PackagesAPI \<Rightarrow> 'b jsobject \<Rightarrow> 'o option \<Rightarrow> 'w \<Rightarrow> 'p \<times> 'w" where
  "updateStack this req requestOptions =
     request (base this) ''PATCH''
       (''/api/v2/packages/stacks/'' @ template (req ''stack_id''))
       req requestOptions (Some ''application/json'')"

definition deleteStack ::
  "('b, 'o, 'w, 'p) PackagesAPI \<Rightarrow> 'b jsobject \<Rightarrow> 'o option \<Rightarrow> 'w \<Rightarrow> 'p \<times> 'w" where
  "deleteStack this req requestOptions =
     request (base this) ''DELETE''
       (''/api/v2/packages/stacks/'' @ template (req ''stack_id'')
          @ queryString (base this) req [''orgID''])
       req requestOptions None"

definition exportStack ::
  "('b, 'o, 'w, 'p) PackagesAPI \<Rightarrow> 'b jsobject \<Rightarrow> 'o option \<Rightarrow> 'w \<Rightarrow> 'p \<times> 'w" where
  "exportStack this req requestOptions =
     request (base this) ''DELETE''
       (''/api/v2/packages/stacks/'' @ template (req ''stack_id'') @ ''/export''
          @ queryString (base this) req [''orgID''])
       req requestOptions None"

section \<open>Observing the transport\<close>

text \<open>
  What a method hands to \<^verbatim>\<open>APIBase.request\<close> is observed with a recording transport:
  its world is the list of the calls it has received, oldest first, and each call of
  its \<open>request\<close> appends one entry. The pending result it returns is chosen by
  \<open>answer\<close> from the calls so far and the call at hand, and its \<open>queryString\<close> is
  \<open>qs\<close>; both are arbitrary, so the recorder stands for any deterministic transport.
\<close>

record ('b, 'o) call =
  verb :: string
  url :: string
  payload :: "'b jsobject"
  options :: "'o option"
  mediaType :: "string option"

definition recorder ::
  "('b jsobject \<Rightarrow> string list \<Rightarrow> string)
   \<Rightarrow> (('b, 'o) call list \<Rightarrow> ('b, 'o) call \<Rightarrow> 'p)
   \<Rightarrow> ('b, 'o, ('b, 'o) call list, 'p) APIBase" where
  "recorder qs answer =
     \<lparr>request = (\<lambda>v u r ro m calls.
        let c = \<lparr>verb = v, url = u, payload = r, options = ro, mediaType = m\<rparr>
        in (answer calls c, calls @ [c])),
      queryString = qs\<rparr>"

text \<open>
  The calls a method makes through a recording transport that starts with no call
  received. What is sent does not depend on the answers, so they are \<open>()\<close> here.
\<close>

definition sent ::
  "(('b, 'o, ('b, 'o) call list, unit) PackagesAPI \<Rightarrow> 'b jsobject \<Rightarrow> 'o option
      \<Rightarrow> ('b, 'o) call list \<Rightarrow> unit \<times> ('b, 'o) call list)
   \<Rightarrow> ('b jsobject \<Rightarrow> string list \<Rightarrow> string) \<Rightarrow> 'b jsobject \<Rightarrow> 'o option
   \<Rightarrow> ('b, 'o) call list" where
  "sent method qs req requestOptions =
     snd (method \<lparr>base = recorder qs (\<lambda>calls c. ())\<rparr> req requestOptions [])"

section \<open>Pending results\<close>

text \<open>
  The pending result of \<^verbatim>\<open>APIBase.request\<close> is a promise. A promise is described by
  how it settles: fulfilled with a value, rejected with a reason, or never settled.
\<close>

datatype ('e, 'a) promise = Fulfilled 'a | Rejected 'e | Pending

section \<open>The query string and the body, from the specification\<close>

text \<open>
  Modelled from the spec: \<^verbatim>\<open>APIBase.queryString\<close>, whose code is in \<^verbatim>\<open>../APIBase\<close>.
  The specification gives it as \<^verbatim>\<open>queryString(requestObject, fieldNames) -> string\<close>:
  the transport filters and encodes only the named fields, ignoring all others; the
  fields that are present appear as \<^verbatim>\<open>name=value\<close>, in the order of the names, after a
  question mark and separated by \<^verbatim>\<open>&\<close> (\<^verbatim>\<open>/api/v2/packages/stacks?orgID=&name=&stackID=\<close>);
  a field that is absent is omitted. How a value is encoded is not said, so the encoder
  is the parameter \<open>encode\<close>.
\<close>

fun join :: "string \<Rightarrow> string list \<Rightarrow> string" where
  "join sep [] = []"
| "join sep [x] = x"
| "join sep (x # y # ys) = x @ sep @ join sep (y # ys)"

definition queryString_spec ::
  "(string \<Rightarrow> string) \<Rightarrow> 'b jsobject \<Rightarrow> string list \<Rightarrow> string" where
  "queryString_spec encode req params =
     (let present = filter (\<lambda>k. req k \<noteq> None) params;
          pairs = map (\<lambda>k. k @ ''='' @ encode (template (req k))) present
      in if pairs = [] then [] else ''?'' @ join ''&'' pairs)"

text \<open>
  Modelled from the spec: the body that \<^verbatim>\<open>APIBase.request\<close> sends for a call, whose
  code is in \<^verbatim>\<open>../APIBase\<close>. The specification has the transport serialise the body,
  and \<^verbatim>\<open>createStack({body: {orgID: "o1", name: "n1"}})\<close> must send a body equal to
  \<^verbatim>\<open>{orgID: "o1", name: "n1"}\<close>: the body of a call is the \<^verbatim>\<open>body\<close> property of
  its request object, and a request object without one sends none.
\<close>

definition request_body :: "('b, 'o) call \<Rightarrow> 'b jsval option" where
  "request_body c = payload c ''body''"

section \<open>The parts of a URL\<close>

text \<open>
  The path of a URL ends at its first question mark and the query follows it; the
  depth of a path is the number of its segments, each opened by a slash.
\<close>

definition url_path :: "string \<Rightarrow> string" where
  "url_path u = takeWhile (\<lambda>c. c \<noteq> CHR ''?'') u"

definition url_query :: "string \<Rightarrow> string" where
  "url_query u = drop 1 (dropWhile (\<lambda>c. c \<noteq> CHR ''?'') u)"

definition path_depth :: "string \<Rightarrow> nat" where
  "path_depth u = length (filter (\<lambda>c. c = CHR ''/'') (url_path u))"

section \<open>The eight methods on the wire\<close>

lemmas method_defs = createPkg_def applyPkg_def listStacks_def createStack_def
  readStack_def updateStack_def deleteStack_def exportStack_def

text \<open>
  C1. For every ExportStackRequest (a request whose \<^verbatim>\<open>stack_id\<close> is a string \<open>sid\<close>),
  \<open>exportStack\<close> makes its call with the verb DELETE, not GET, to the path
  \<^verbatim>\<open>/api/v2/packages/stacks/{stack_id}/export\<close>, followed by the query string that the
  transport builds from the single field \<^verbatim>\<open>orgID\<close> of the request.
\<close>

theorem exportStack_sends_DELETE:
  assumes "req ''stack_id'' = Some (JString sid)"
  shows "sent exportStack qs req ro =
           [\<lparr>verb = ''DELETE'',
             url = ''/api/v2/packages/stacks/'' @ sid @ ''/export'' @ qs req [''orgID''],
             payload = req, options = ro, mediaType = None\<rparr>]
         \<and> map verb (sent exportStack qs req ro) \<noteq> [''GET'']"
  using assms by (simp add: sent_def exportStack_def recorder_def)

theorem exportStack_sends_DELETE_witness:
  "sent exportStack (\<lambda>r ps. ''?orgID=o1'')
     [''stack_id'' \<mapsto> JString ''abc'', ''orgID'' \<mapsto> (JString ''o1'' :: unit jsval)]
     (None :: unit option) =
     [\<lparr>verb = ''DELETE'', url = ''/api/v2/packages/stacks/abc/export?orgID=o1'',
       payload = [''stack_id'' \<mapsto> JString ''abc'', ''orgID'' \<mapsto> JString ''o1''],
       options = None, mediaType = None\<rparr>]"
  using exportStack_sends_DELETE
    [of "[''stack_id'' \<mapsto> JString ''abc'', ''orgID'' \<mapsto> (JString ''o1'' :: unit jsval)]"
        "''abc''" "\<lambda>r ps. ''?orgID=o1''" "None :: unit option"]
  by simp

text \<open>
  C2. Each of the eight methods passes to the transport the verb and the path of the
  contract table. For every request, \<open>createPkg\<close> is POST \<^verbatim>\<open>/api/v2/packages\<close>,
  \<open>applyPkg\<close> is POST \<^verbatim>\<open>/api/v2/packages/apply\<close>, \<open>listStacks\<close> is GET
  \<^verbatim>\<open>/api/v2/packages/stacks\<close> and \<open>createStack\<close> is POST \<^verbatim>\<open>/api/v2/packages/stacks\<close>.
  For every request whose required \<^verbatim>\<open>stack_id\<close> is populated with a string \<open>sid\<close>,
  \<open>readStack\<close>, \<open>updateStack\<close> and \<open>deleteStack\<close> are GET, PATCH and DELETE
  \<^verbatim>\<open>/api/v2/packages/stacks/{stack_id}\<close> with \<^verbatim>\<open>{stack_id}\<close> replaced by \<open>sid\<close>, and
  \<open>exportStack\<close> has the verb as implemented with
  \<^verbatim>\<open>/api/v2/packages/stacks/{stack_id}/export\<close>. The three operations with query
  parameters append to the path the query string that the transport builds from the
  fields of the table's query column.
\<close>

theorem verbs_and_paths:
  "map (\<lambda>c. (verb c, url c)) (sent createPkg qs req ro) =
     [(''POST'', ''/api/v2/packages'')]
   \<and> map (\<lambda>c. (verb c, url c)) (sent applyPkg qs req ro) =
     [(''POST'', ''/api/v2/packages/apply'')]
   \<and> map (\<lambda>c. (verb c, url c)) (sent listStacks qs req ro) =
     [(''GET'', ''/api/v2/packages/stacks'' @ qs req [''orgID'', ''name'', ''stackID''])]
   \<and> map (\<lambda>c. (verb c, url c)) (sent createStack qs req ro) =
     [(''POST'', ''/api/v2/packages/stacks'')]
   \<and> (req ''stack_id'' = Some (JString sid) \<longrightarrow>
        map (\<lambda>c. (verb c, url c)) (sent readStack qs req ro) =
          [(''GET'', ''/api/v2/packages/stacks/'' @ sid)]
        \<and> map (\<lambda>c. (verb c, url c)) (sent updateStack qs req ro) =
          [(''PATCH'', ''/api/v2/packages/stacks/'' @ sid)]
        \<and> map (\<lambda>c. (verb c, url c)) (sent deleteStack qs req ro) =
          [(''DELETE'', ''/api/v2/packages/stacks/'' @ sid @ qs req [''orgID''])]
        \<and> map (\<lambda>c. (verb c, url c)) (sent exportStack qs req ro) =
          [(''DELETE'',
            ''/api/v2/packages/stacks/'' @ sid @ ''/export'' @ qs req [''orgID''])])"
  by (simp add: sent_def method_defs recorder_def)

theorem verbs_and_paths_witness:
  "map (\<lambda>c. (verb c, url c))
     (sent createPkg (\<lambda>r ps. [])
        [''body'' \<mapsto> (JObject () :: unit jsval)] (None :: unit option)) =
     [(''POST'', ''/api/v2/packages'')]
   \<and> map (\<lambda>c. (verb c, url c))
     (sent applyPkg (\<lambda>r ps. [])
        [''body'' \<mapsto> (JObject () :: unit jsval)] (None :: unit option)) =
     [(''POST'', ''/api/v2/packages/apply'')]
   \<and> map (\<lambda>c. (verb c, url c))
     (sent createStack (\<lambda>r ps. [])
        [''body'' \<mapsto> (JObject () :: unit jsval)] (None :: unit option)) =
     [(''POST'', ''/api/v2/packages/stacks'')]
   \<and> map (\<lambda>c. (verb c, url c))
     (sent listStacks (\<lambda>r ps. ''?orgID=o1'')
        [''orgID'' \<mapsto> (JString ''o1'' :: unit jsval)] (None :: unit option)) =
     [(''GET'', ''/api/v2/packages/stacks?orgID=o1'')]
   \<and> map (\<lambda>c. (verb c, url c))
     (sent readStack (\<lambda>r ps. ''?orgID=o1'')
        [''stack_id'' \<mapsto> (JString ''s7'' :: unit jsval), ''orgID'' \<mapsto> JString ''o1'']
        (None :: unit option)) =
     [(''GET'', ''/api/v2/packages/stacks/s7'')]
   \<and> map (\<lambda>c. (verb c, url c))
     (sent updateStack (\<lambda>r ps. ''?orgID=o1'')
        [''stack_id'' \<mapsto> (JString ''s7'' :: unit jsval), ''orgID'' \<mapsto> JString ''o1'']
        (None :: unit option)) =
     [(''PATCH'', ''/api/v2/packages/stacks/s7'')]
   \<and> map (\<lambda>c. (verb c, url c))
     (sent deleteStack (\<lambda>r ps. ''?orgID=o1'')
        [''stack_id'' \<mapsto> (JString ''s7'' :: unit jsval), ''orgID'' \<mapsto> JString ''o1'']
        (None :: unit option)) =
     [(''DELETE'', ''/api/v2/packages/stacks/s7?orgID=o1'')]
   \<and> map (\<lambda>c. (verb c, url c))
     (sent exportStack (\<lambda>r ps. ''?orgID=o1'')
        [''stack_id'' \<mapsto> (JString ''s7'' :: unit jsval), ''orgID'' \<mapsto> JString ''o1'']
        (None :: unit option)) =
     [(''DELETE'', ''/api/v2/packages/stacks/s7/export?orgID=o1'')]"
proof -
  let ?no = "None :: unit option"
  let ?body = "[''body'' \<mapsto> (JObject () :: unit jsval)]"
  let ?list = "[''orgID'' \<mapsto> (JString ''o1'' :: unit jsval)]"
  let ?stack = "[''stack_id'' \<mapsto> (JString ''s7'' :: unit jsval), ''orgID'' \<mapsto> JString ''o1'']"
  have populated: "?stack ''stack_id'' = Some (JString ''s7'')" by simp
  note create = verbs_and_paths [of "\<lambda>r ps. []" ?body ?no "''s7''"]
  note list = verbs_and_paths [of "\<lambda>r ps. ''?orgID=o1''" ?list ?no "''s7''"]
  note stack = verbs_and_paths [of "\<lambda>r ps. ''?orgID=o1''" ?stack ?no "''s7''"]
  have a: "map (\<lambda>c. (verb c, url c)) (sent createPkg (\<lambda>r ps. []) ?body ?no) =
        [(''POST'', ''/api/v2/packages'')]
      \<and> map (\<lambda>c. (verb c, url c)) (sent applyPkg (\<lambda>r ps. []) ?body ?no) =
        [(''POST'', ''/api/v2/packages/apply'')]
      \<and> map (\<lambda>c. (verb c, url c)) (sent createStack (\<lambda>r ps. []) ?body ?no) =
        [(''POST'', ''/api/v2/packages/stacks'')]"
    using create by blast
  have b: "map (\<lambda>c. (verb c, url c)) (sent listStacks (\<lambda>r ps. ''?orgID=o1'') ?list ?no) =
        [(''GET'', ''/api/v2/packages/stacks?orgID=o1'')]"
    using list by simp
  have c: "map (\<lambda>c. (verb c, url c)) (sent readStack (\<lambda>r ps. ''?orgID=o1'') ?stack ?no) =
        [(''GET'', ''/api/v2/packages/stacks/s7'')]
      \<and> map (\<lambda>c. (verb c, url c)) (sent updateStack (\<lambda>r ps. ''?orgID=o1'') ?stack ?no) =
        [(''PATCH'', ''/api/v2/packages/stacks/s7'')]
      \<and> map (\<lambda>c. (verb c, url c)) (sent deleteStack (\<lambda>r ps. ''?orgID=o1'') ?stack ?no) =
        [(''DELETE'', ''/api/v2/packages/stacks/s7?orgID=o1'')]
      \<and> map (\<lambda>c. (verb c, url c)) (sent exportStack (\<lambda>r ps. ''?orgID=o1'') ?stack ?no) =
        [(''DELETE'', ''/api/v2/packages/stacks/s7/export?orgID=o1'')]"
    using stack populated by simp
  from a b c show ?thesis by blast
qed

text \<open>
  C3. For every method, every request and every transport, the method returns what
  the one call of the transport's \<open>request\<close> returns, and leaves the world as that
  call leaves it. The pending result is the transport's own promise: it is fulfilled
  exactly when the transport's is, with the same value, and rejected exactly when the
  transport's is, with the same reason; nothing is translated, wrapped, retried or
  recovered.
\<close>

theorem methods_forward_transport_result:
  fixes this :: "('b, 'o, 'w, ('e, 'a) promise) PackagesAPI"
  shows "createPkg this req ro w =
           request (base this) ''POST'' ''/api/v2/packages'' req ro
             (Some ''application/json'') w
       \<and> applyPkg this req ro w =
           request (base this) ''POST'' ''/api/v2/packages/apply'' req ro
             (Some ''application/json'') w
       \<and> listStacks this req ro w =
           request (base this) ''GET''
             (''/api/v2/packages/stacks''
                @ queryString (base this) req [''orgID'', ''name'', ''stackID''])
             req ro None w
       \<and> createStack this req ro w =
           request (base this) ''POST'' ''/api/v2/packages/stacks'' req ro
             (Some ''application/json'') w
       \<and> readStack this req ro w =
           request (base this) ''GET''
             (''/api/v2/packages/stacks/'' @ template (req ''stack_id'')) req ro None w
       \<and> updateStack this req ro w =
           request (base this) ''PATCH''
             (''/api/v2/packages/stacks/'' @ template (req ''stack_id'')) req ro
             (Some ''application/json'') w
       \<and> deleteStack this req ro w =
           request (base this) ''DELETE''
             (''/api/v2/packages/stacks/'' @ template (req ''stack_id'')
                @ queryString (base this) req [''orgID''])
             req ro None w
       \<and> exportStack this req ro w =
           request (base this) ''DELETE''
             (''/api/v2/packages/stacks/'' @ template (req ''stack_id'') @ ''/export''
                @ queryString (base this) req [''orgID''])
             req ro None w"
  by (simp add: method_defs)

text \<open>
  C4. \<open>listStacks\<close> names to the transport's \<open>queryString\<close> exactly the fields
  \<^verbatim>\<open>orgID\<close>, \<^verbatim>\<open>name\<close>, \<^verbatim>\<open>stackID\<close>, in this order, and appends the result to the
  path. With the query string of the specification: a request with \<^verbatim>\<open>orgID\<close> present
  and \<^verbatim>\<open>name\<close>, \<^verbatim>\<open>stackID\<close> absent gives \<^verbatim>\<open>?orgID=...\<close> alone; a request with all
  three present gives all three in the declared order; and two requests that agree on
  these three fields give the same URL, whatever their other fields hold.
\<close>

theorem listStacks_query_whitelist:
  "map url (sent listStacks qs req ro) =
     [''/api/v2/packages/stacks'' @ qs req [''orgID'', ''name'', ''stackID'']]
   \<and> (req ''orgID'' = Some (JString org) \<and> req ''name'' = None \<and> req ''stackID'' = None \<longrightarrow>
        map url (sent listStacks (queryString_spec enc) req ro) =
          [''/api/v2/packages/stacks?orgID='' @ enc org])
   \<and> (req ''orgID'' = Some (JString org) \<and> req ''name'' = Some (JString nm)
        \<and> req ''stackID'' = Some (JString sk) \<longrightarrow>
        map url (sent listStacks (queryString_spec enc) req ro) =
          [''/api/v2/packages/stacks?orgID='' @ enc org @ ''&name='' @ enc nm
             @ ''&stackID='' @ enc sk])
   \<and> (\<forall>req'. req' ''orgID'' = req ''orgID'' \<and> req' ''name'' = req ''name''
          \<and> req' ''stackID'' = req ''stackID'' \<longrightarrow>
        map url (sent listStacks (queryString_spec enc) req' ro) =
          map url (sent listStacks (queryString_spec enc) req ro))"
  by (simp add: sent_def listStacks_def recorder_def queryString_spec_def)

theorem listStacks_query_whitelist_witness:
  "map url (sent listStacks (queryString_spec (\<lambda>s. s))
      [''orgID'' \<mapsto> (JString ''o1'' :: unit jsval)] (None :: unit option)) =
     [''/api/v2/packages/stacks?orgID=o1'']
   \<and> map url (sent listStacks (queryString_spec (\<lambda>s. s))
      [''orgID'' \<mapsto> (JString ''o1'' :: unit jsval), ''name'' \<mapsto> JString ''n1'',
       ''stackID'' \<mapsto> JString ''s1''] (None :: unit option)) =
     [''/api/v2/packages/stacks?orgID=o1&name=n1&stackID=s1'']
   \<and> map url (sent listStacks (queryString_spec (\<lambda>s. s))
      [''orgID'' \<mapsto> (JString ''o1'' :: unit jsval), ''body'' \<mapsto> JObject ()]
      (None :: unit option)) =
     map url (sent listStacks (queryString_spec (\<lambda>s. s))
      [''orgID'' \<mapsto> (JString ''o1'' :: unit jsval)] (None :: unit option))"
proof -
  let ?only = "[''orgID'' \<mapsto> (JString ''o1'' :: unit jsval)]"
  let ?all = "[''orgID'' \<mapsto> (JString ''o1'' :: unit jsval), ''name'' \<mapsto> JString ''n1'',
               ''stackID'' \<mapsto> JString ''s1'']"
  let ?more = "[''orgID'' \<mapsto> (JString ''o1'' :: unit jsval), ''body'' \<mapsto> JObject ()]"
  let ?no = "None :: unit option"
  note only = listStacks_query_whitelist
    [of "\<lambda>r ps. []" ?only ?no "''o1''" "\<lambda>s. s" "''n1''" "''s1''"]
  note all = listStacks_query_whitelist
    [of "\<lambda>r ps. []" ?all ?no "''o1''" "\<lambda>s. s" "''n1''" "''s1''"]
  have one: "map url (sent listStacks (queryString_spec (\<lambda>s. s)) ?only ?no) =
      [''/api/v2/packages/stacks?orgID=o1'']"
    using only by simp
  have three: "map url (sent listStacks (queryString_spec (\<lambda>s. s)) ?all ?no) =
      [''/api/v2/packages/stacks?orgID=o1&name=n1&stackID=s1'']"
    using all by simp
  have agree: "?more ''orgID'' = ?only ''orgID'' \<and> ?more ''name'' = ?only ''name''
      \<and> ?more ''stackID'' = ?only ''stackID''"
    by simp
  have same: "map url (sent listStacks (queryString_spec (\<lambda>s. s)) ?more ?no) =
      map url (sent listStacks (queryString_spec (\<lambda>s. s)) ?only ?no)"
    using only agree by blast
  from one three same show ?thesis by blast
qed

text \<open>
  C5. For every DeleteStackRequest with \<^verbatim>\<open>stack_id\<close> "abc" and \<^verbatim>\<open>orgID\<close> "o1" (the
  interface declares no \<^verbatim>\<open>body\<close>), and an encoder that leaves "o1" as it is,
  \<open>deleteStack\<close> makes one DELETE call whose URL has the path
  \<^verbatim>\<open>/api/v2/packages/stacks/abc\<close> and the query \<^verbatim>\<open>orgID=o1\<close>, with no content type and
  no body.
\<close>

theorem deleteStack_abc_o1:
  assumes "req ''stack_id'' = Some (JString ''abc'')"
      and "req ''orgID'' = Some (JString ''o1'')"
      and "req ''body'' = None"
      and "enc ''o1'' = ''o1''"
  shows "sent deleteStack (queryString_spec enc) req ro =
           [\<lparr>verb = ''DELETE'', url = ''/api/v2/packages/stacks/abc?orgID=o1'',
             payload = req, options = ro, mediaType = None\<rparr>]
       \<and> map (url_path \<circ> url) (sent deleteStack (queryString_spec enc) req ro) =
           [''/api/v2/packages/stacks/abc'']
       \<and> map (url_query \<circ> url) (sent deleteStack (queryString_spec enc) req ro) =
           [''orgID=o1'']
       \<and> map request_body (sent deleteStack (queryString_spec enc) req ro) = [None]"
  using assms
  by (simp add: sent_def deleteStack_def recorder_def queryString_spec_def
      url_path_def url_query_def request_body_def)

theorem deleteStack_abc_o1_witness:
  "sent deleteStack (queryString_spec (\<lambda>s. s))
     [''stack_id'' \<mapsto> (JString ''abc'' :: unit jsval), ''orgID'' \<mapsto> JString ''o1'']
     (None :: unit option) =
     [\<lparr>verb = ''DELETE'', url = ''/api/v2/packages/stacks/abc?orgID=o1'',
       payload = [''stack_id'' \<mapsto> JString ''abc'', ''orgID'' \<mapsto> JString ''o1''],
       options = None, mediaType = None\<rparr>]
   \<and> map request_body
       (sent deleteStack (queryString_spec (\<lambda>s. s))
          [''stack_id'' \<mapsto> (JString ''abc'' :: unit jsval), ''orgID'' \<mapsto> JString ''o1'']
          (None :: unit option)) = [None]"
proof -
  let ?req = "[''stack_id'' \<mapsto> (JString ''abc'' :: unit jsval), ''orgID'' \<mapsto> JString ''o1'']"
  have sid: "?req ''stack_id'' = Some (JString ''abc'')" by simp
  have org: "?req ''orgID'' = Some (JString ''o1'')" by simp
  have nobody: "?req ''body'' = None" by simp
  have enc: "(\<lambda>s :: string. s) ''o1'' = ''o1''" by simp
  from deleteStack_abc_o1
    [of ?req "\<lambda>s. s" "None :: unit option", OF sid org nobody enc]
  show ?thesis by blast
qed

text \<open>
  C6. Exactly the four operations that carry a body, \<open>createPkg\<close>, \<open>applyPkg\<close>,
  \<open>createStack\<close> and \<open>updateStack\<close>, pass the content type \<^verbatim>\<open>application/json\<close> to
  the transport; \<open>listStacks\<close>, \<open>readStack\<close>, \<open>deleteStack\<close> and \<open>exportStack\<close>
  pass no content type argument.
\<close>

theorem content_types:
  "map mediaType (sent createPkg qs req ro) = [Some ''application/json'']
   \<and> map mediaType (sent applyPkg qs req ro) = [Some ''application/json'']
   \<and> map mediaType (sent createStack qs req ro) = [Some ''application/json'']
   \<and> map mediaType (sent updateStack qs req ro) = [Some ''application/json'']
   \<and> map mediaType (sent listStacks qs req ro) = [None]
   \<and> map mediaType (sent readStack qs req ro) = [None]
   \<and> map mediaType (sent deleteStack qs req ro) = [None]
   \<and> map mediaType (sent exportStack qs req ro) = [None]"
  by (simp add: sent_def method_defs recorder_def)

text \<open>
  C8. No method validates its path parameter. For every method with a \<^verbatim>\<open>stack_id\<close>
  path parameter and every request in which it is absent, nothing fails locally: the
  absent value is interpolated as \<^verbatim>\<open>undefined\<close>, the malformed URL is passed to the
  transport in the one call the method makes, and the method returns the transport's
  answer.
\<close>

theorem absent_stack_id_still_sent:
  assumes "req ''stack_id'' = None"
  shows "readStack \<lparr>base = recorder qs answer\<rparr> req ro calls =
           (let c = \<lparr>verb = ''GET'', url = ''/api/v2/packages/stacks/undefined'',
                     payload = req, options = ro, mediaType = None\<rparr>
            in (answer calls c, calls @ [c]))
       \<and> updateStack \<lparr>base = recorder qs answer\<rparr> req ro calls =
           (let c = \<lparr>verb = ''PATCH'', url = ''/api/v2/packages/stacks/undefined'',
                     payload = req, options = ro, mediaType = Some ''application/json''\<rparr>
            in (answer calls c, calls @ [c]))
       \<and> deleteStack \<lparr>base = recorder qs answer\<rparr> req ro calls =
           (let c = \<lparr>verb = ''DELETE'',
                     url = ''/api/v2/packages/stacks/undefined'' @ qs req [''orgID''],
                     payload = req, options = ro, mediaType = None\<rparr>
            in (answer calls c, calls @ [c]))
       \<and> exportStack \<lparr>base = recorder qs answer\<rparr> req ro calls =
           (let c = \<lparr>verb = ''DELETE'',
                     url = ''/api/v2/packages/stacks/undefined/export''
                             @ qs req [''orgID''],
                     payload = req, options = ro, mediaType = None\<rparr>
            in (answer calls c, calls @ [c]))"
  using assms by (simp add: method_defs recorder_def Let_def)

theorem absent_stack_id_still_sent_witness:
  "readStack
     \<lparr>base = recorder (\<lambda>r ps. ''?orgID=o1'')
        (\<lambda>cs c. (Rejected ''404'' :: (string, unit) promise))\<rparr>
     [''orgID'' \<mapsto> (JString ''o1'' :: unit jsval)] (None :: unit option) [] =
     (Rejected ''404'',
      [\<lparr>verb = ''GET'', url = ''/api/v2/packages/stacks/undefined'',
        payload = [''orgID'' \<mapsto> JString ''o1''], options = None, mediaType = None\<rparr>])
   \<and> exportStack
     \<lparr>base = recorder (\<lambda>r ps. ''?orgID=o1'')
        (\<lambda>cs c. (Rejected ''404'' :: (string, unit) promise))\<rparr>
     [''orgID'' \<mapsto> (JString ''o1'' :: unit jsval)] (None :: unit option) [] =
     (Rejected ''404'',
      [\<lparr>verb = ''DELETE'', url = ''/api/v2/packages/stacks/undefined/export?orgID=o1'',
        payload = [''orgID'' \<mapsto> JString ''o1''], options = None, mediaType = None\<rparr>])"
proof -
  let ?req = "[''orgID'' \<mapsto> (JString ''o1'' :: unit jsval)]"
  have absent: "?req ''stack_id'' = None" by simp
  from absent_stack_id_still_sent
    [of ?req "\<lambda>r ps. ''?orgID=o1''"
        "\<lambda>cs c. (Rejected ''404'' :: (string, unit) promise)" "None :: unit option" "[]",
     OF absent]
  show ?thesis by simp
qed

text \<open>
  C9. For every method and every request, one invocation makes exactly one call of
  the transport's \<open>request\<close>: the transport's record of calls grows by one entry, and
  the result is the transport's answer to it. The request object and the options
  handed over in that call are the ones the method received, unchanged; the method
  has no effect of its own.
\<close>

theorem one_call_per_invocation:
  "(\<exists>c. createPkg \<lparr>base = recorder qs answer\<rparr> req ro calls = (answer calls c, calls @ [c])
        \<and> payload c = req \<and> options c = ro)
   \<and> (\<exists>c. applyPkg \<lparr>base = recorder qs answer\<rparr> req ro calls = (answer calls c, calls @ [c])
        \<and> payload c = req \<and> options c = ro)
   \<and> (\<exists>c. listStacks \<lparr>base = recorder qs answer\<rparr> req ro calls = (answer calls c, calls @ [c])
        \<and> payload c = req \<and> options c = ro)
   \<and> (\<exists>c. createStack \<lparr>base = recorder qs answer\<rparr> req ro calls = (answer calls c, calls @ [c])
        \<and> payload c = req \<and> options c = ro)
   \<and> (\<exists>c. readStack \<lparr>base = recorder qs answer\<rparr> req ro calls = (answer calls c, calls @ [c])
        \<and> payload c = req \<and> options c = ro)
   \<and> (\<exists>c. updateStack \<lparr>base = recorder qs answer\<rparr> req ro calls = (answer calls c, calls @ [c])
        \<and> payload c = req \<and> options c = ro)
   \<and> (\<exists>c. deleteStack \<lparr>base = recorder qs answer\<rparr> req ro calls = (answer calls c, calls @ [c])
        \<and> payload c = req \<and> options c = ro)
   \<and> (\<exists>c. exportStack \<lparr>base = recorder qs answer\<rparr> req ro calls = (answer calls c, calls @ [c])
        \<and> payload c = req \<and> options c = ro)"
  by (simp add: method_defs recorder_def Let_def)

text \<open>
  C10. For every method with a \<^verbatim>\<open>stack_id\<close> path parameter, the string \<open>sid\<close> of the
  request appears in the URL exactly as it is, with nothing encoded or escaped. So its
  reserved characters act on the URL handed to the transport: for \<open>readStack\<close> and
  \<open>updateStack\<close> the path ends at the first question mark of \<open>sid\<close>, the rest of
  \<open>sid\<close> being read as the query, and every slash of \<open>sid\<close> before it adds a segment
  to the five of the template.
\<close>

theorem stack_id_verbatim:
  assumes "req ''stack_id'' = Some (JString sid)"
  shows "map url (sent readStack qs req ro) = [''/api/v2/packages/stacks/'' @ sid]
       \<and> map url (sent updateStack qs req ro) = [''/api/v2/packages/stacks/'' @ sid]
       \<and> map url (sent deleteStack qs req ro) =
           [''/api/v2/packages/stacks/'' @ sid @ qs req [''orgID'']]
       \<and> map url (sent exportStack qs req ro) =
           [''/api/v2/packages/stacks/'' @ sid @ ''/export'' @ qs req [''orgID'']]
       \<and> map (url_path \<circ> url) (sent readStack qs req ro) =
           [''/api/v2/packages/stacks/'' @ takeWhile (\<lambda>c. c \<noteq> CHR ''?'') sid]
       \<and> map (url_query \<circ> url) (sent readStack qs req ro) =
           [drop 1 (dropWhile (\<lambda>c. c \<noteq> CHR ''?'') sid)]
       \<and> map (path_depth \<circ> url) (sent readStack qs req ro) =
           [5 + length (filter (\<lambda>c. c = CHR ''/'') (takeWhile (\<lambda>c. c \<noteq> CHR ''?'') sid))]
       \<and> map (url_path \<circ> url) (sent updateStack qs req ro) =
           [''/api/v2/packages/stacks/'' @ takeWhile (\<lambda>c. c \<noteq> CHR ''?'') sid]
       \<and> map (url_query \<circ> url) (sent updateStack qs req ro) =
           [drop 1 (dropWhile (\<lambda>c. c \<noteq> CHR ''?'') sid)]
       \<and> map (path_depth \<circ> url) (sent updateStack qs req ro) =
           [5 + length (filter (\<lambda>c. c = CHR ''/'') (takeWhile (\<lambda>c. c \<noteq> CHR ''?'') sid))]"
  using assms
  by (simp add: sent_def method_defs recorder_def url_path_def url_query_def path_depth_def)

theorem stack_id_verbatim_witness:
  "map url (sent readStack (\<lambda>r ps. [])
      [''stack_id'' \<mapsto> (JString ''a/b?c=d'' :: unit jsval)] (None :: unit option)) =
     [''/api/v2/packages/stacks/a/b?c=d'']
   \<and> map (url_path \<circ> url) (sent readStack (\<lambda>r ps. [])
      [''stack_id'' \<mapsto> (JString ''a/b?c=d'' :: unit jsval)] (None :: unit option)) =
     [''/api/v2/packages/stacks/a/b'']
   \<and> map (url_query \<circ> url) (sent readStack (\<lambda>r ps. [])
      [''stack_id'' \<mapsto> (JString ''a/b?c=d'' :: unit jsval)] (None :: unit option)) =
     [''c=d'']
   \<and> map (path_depth \<circ> url) (sent readStack (\<lambda>r ps. [])
      [''stack_id'' \<mapsto> (JString ''a/b?c=d'' :: unit jsval)] (None :: unit option)) =
     [6]"
proof -
  let ?req = "[''stack_id'' \<mapsto> (JString ''a/b?c=d'' :: unit jsval)]"
  have present: "?req ''stack_id'' = Some (JString ''a/b?c=d'')" by simp
  from stack_id_verbatim
    [of ?req "''a/b?c=d''" "\<lambda>r ps. []" "None :: unit option", OF present]
  show ?thesis by simp
qed

end
